theory Spec2Isabelle
  imports Main
begin

section \<open>Errors and outcomes\<close>

text \<open>
  A Go \<^verbatim>\<open>error\<close> value. \<open>NotFoundError id\<close> is \<^verbatim>\<open>*regstate.NotFoundError\<close>
  for the id; \<open>ExternalError msg\<close> is any other error an external collaborator
  (registry, network provider, guest, compute system) reports; \<open>Errorf format args\<close> is
  the value of \<^verbatim>\<open>fmt.Errorf(format, args...)\<close>, kept with its arguments rather than
  rendered, where \<open>ArgError err\<close> is the message of an error (\<^verbatim>\<open>err\<close> under \<^verbatim>\<open>%s\<close>, or
  \<^verbatim>\<open>err.Error()\<close>); \<open>Wrap err msg\<close> is \<^verbatim>\<open>errors.Wrap(err, msg)\<close>. A nil error is
  \<open>None\<close> of \<open>error option\<close>.
\<close>

datatype error =
    NotFoundError string
  | ExternalError string
  | Errorf string "fmt_arg list"
  | Wrap error string
and fmt_arg =
    ArgString string
  | ArgError error

text \<open>
  What a call that may also panic does: it returns its error value (nil on success), or
  the goroutine panics with a runtime error.
\<close>

datatype outcome =
    Return "error option"
  | Panic string

definition nil_dereference :: string where
  "nil_dereference = ''runtime error: invalid memory address or nil pointer dereference''"

section \<open>Package uvm: template configuration (internal/uvm/clone.go)\<close>

text \<open>
  \<^verbatim>\<open>Cloneable\<close> is an interface; the values this code puts behind it are pointers to
  \<^verbatim>\<open>VSMBShare\<close> and to \<^verbatim>\<open>SCSIMount\<close>. The two structs are declared in other files of the
  package, so their contents are the type parameters \<open>'v\<close> and \<open>'s\<close>.
\<close>

datatype ('v, 's) Cloneable =
    VSMBShare 'v
  | SCSIMount 's

record ('v, 's) UVMTemplateConfig =
  UVMID :: string
  Resources :: "('v, 's) Cloneable list"

text \<open>
  The fields of \<^verbatim>\<open>UtilityVM\<close> that \<^verbatim>\<open>GenerateTemplateConfig\<close> reads. The struct is declared
  in another file of package \<^verbatim>\<open>uvm\<close>: the two share inventories are Go maps from a string
  key to a share pointer, and \<^verbatim>\<open>scsiLocations\<close> is an array of controllers, each an array
  of mount pointers. A nil pointer is \<open>None\<close>.
\<close>

record ('v, 's) UtilityVM =
  uvm_ID :: string
  vsmbDirShares :: "string \<rightharpoonup> 'v option"
  vsmbFileShares :: "string \<rightharpoonup> 'v option"
  scsiLocations :: "'s option list list"

text \<open>
  \<^verbatim>\<open>range\<close> over a Go map visits every key once, in an order the language leaves open
  and does not keep from one loop to the next. The order is therefore an input of the
  model: \<open>rangeOrder m keys\<close> says that \<open>keys\<close> is one of the orders in which a loop may
  visit the map \<open>m\<close>.
\<close>

definition rangeOrder :: "('k \<rightharpoonup> 'a) \<Rightarrow> 'k list \<Rightarrow> bool" where
  "rangeOrder m keys = (distinct keys \<and> set keys = dom m)"

text \<open>
  The body of the two loops over a share map (lines 67-71 and 73-77), run over the keys
  in the order the loop visits them.
\<close>

fun appendShares ::
  "(string \<rightharpoonup> 'v option) \<Rightarrow> string list \<Rightarrow> ('v, 's) Cloneable list
     \<Rightarrow> ('v, 's) Cloneable list" where
  "appendShares shares [] resources = resources"
| "appendShares shares (key # rest) resources =
     appendShares shares rest
       (case shares key of
          Some (Some vsmbShare) \<Rightarrow> resources @ [VSMBShare vsmbShare]
        | Some None \<Rightarrow> resources
        | None \<Rightarrow> resources)"

text \<open>The inner loop over the slots of one controller (lines 80-84).\<close>

fun appendMounts ::
  "'s option list \<Rightarrow> ('v, 's) Cloneable list \<Rightarrow> ('v, 's) Cloneable list" where
  "appendMounts [] resources = resources"
| "appendMounts (scsiMount # rest) resources =
     appendMounts rest
       (case scsiMount of
          None \<Rightarrow> resources
        | Some mount \<Rightarrow> resources @ [SCSIMount mount])"

text \<open>The outer loop over the controllers (lines 79-85).\<close>

fun appendLocations ::
  "'s option list list \<Rightarrow> ('v, 's) Cloneable list \<Rightarrow> ('v, 's) Cloneable list" where
  "appendLocations [] resources = resources"
| "appendLocations (location # rest) resources =
     appendLocations rest (appendMounts location resources)"

text \<open>
  \<open>dirKeys\<close> and \<open>fileKeys\<close> are the orders in which the two loops of this call visit the
  share maps.
\<close>

definition GenerateTemplateConfig ::
  "('v, 's) UtilityVM \<Rightarrow> string list \<Rightarrow> string list \<Rightarrow> ('v, 's) UVMTemplateConfig" where
  "GenerateTemplateConfig uvm dirKeys fileKeys =
     (let templateConfig = \<lparr>UVMID = uvm_ID uvm, Resources = []\<rparr>;
          r1 = appendShares (vsmbDirShares uvm) dirKeys (Resources templateConfig);
          r2 = appendShares (vsmbFileShares uvm) fileKeys r1;
          r3 = appendLocations (scsiLocations uvm) r2
      in templateConfig\<lparr>Resources := r3\<rparr>)"

section \<open>Package clone: the persisted template store (internal/clone)\<close>

definition configRoot :: string where
  "configRoot = ''croot''"

definition configKey :: string where
  "configKey = ''ckey''"

record persistedUVMConfig =
  RawData :: "char list"
  Stored :: bool

text \<open>
  Package \<^verbatim>\<open>regstate\<close> is external to this code, so the registry is a parameter: a world
  \<open>'w\<close> the calls act on, a key handle \<open>'k\<close>, and one function per call the code makes.
  Each call returns its result and the world it leaves. \<open>regstate_Close\<close> is the deferred
  \<^verbatim>\<open>sk.Close()\<close>, whose own result the code drops.
\<close>

record ('w, 'k) regstate =
  regstate_Open :: "string \<Rightarrow> bool \<Rightarrow> 'w \<Rightarrow> (error + 'k) \<times> 'w"
  regstate_Get :: "'k \<Rightarrow> string \<Rightarrow> string \<Rightarrow> persistedUVMConfig \<Rightarrow> 'w \<Rightarrow> (error + persistedUVMConfig) \<times> 'w"
  regstate_Set :: "'k \<Rightarrow> string \<Rightarrow> string \<Rightarrow> persistedUVMConfig \<Rightarrow> 'w \<Rightarrow> error option \<times> 'w"
  regstate_Create :: "'k \<Rightarrow> string \<Rightarrow> string \<Rightarrow> persistedUVMConfig \<Rightarrow> 'w \<Rightarrow> error option \<times> 'w"
  regstate_Remove :: "'k \<Rightarrow> string \<Rightarrow> 'w \<Rightarrow> error option \<times> 'w"
  regstate_Close :: "'k \<Rightarrow> 'w \<Rightarrow> 'w"

text \<open>
  Modelled from the spec: \<^verbatim>\<open>regstate.IsNotFoundError\<close> of the external package, the test
  for the store's \<open>NotFound\<close> kind that callers branch on. A nil error is not of that kind.
\<close>

fun IsNotFoundError :: "error option \<Rightarrow> bool" where
  "IsNotFoundError (Some (NotFoundError ident)) = True"
| "IsNotFoundError other = False"

text \<open>
  \<^verbatim>\<open>encoding/gob\<close> with the two variants registered by \<^verbatim>\<open>init\<close> is a parameter as well:
  what the encoder makes of a template config, and what the decoder makes of bytes.
\<close>

record ('v, 's) gob =
  gob_Encode :: "('v, 's) UVMTemplateConfig \<Rightarrow> error + char list"
  gob_Decode :: "char list \<Rightarrow> error + ('v, 's) UVMTemplateConfig"

definition encodeTemplateConfig ::
  "('v, 's) gob \<Rightarrow> ('v, 's) UVMTemplateConfig \<Rightarrow> error + char list" where
  "encodeTemplateConfig g utc =
     (case gob_Encode g utc of
        Inl err \<Rightarrow> Inl (Errorf ''Error while encoding template config: %s'' [ArgError err])
      | Inr buf \<Rightarrow> Inr buf)"

definition decodeTemplateConfig ::
  "('v, 's) gob \<Rightarrow> char list \<Rightarrow> error + ('v, 's) UVMTemplateConfig" where
  "decodeTemplateConfig g encodedBytes =
     (case gob_Decode g encodedBytes of
        Inl err \<Rightarrow> Inl (Errorf ''Error while decoding template config: %s'' [ArgError err])
      | Inr utc \<Rightarrow> Inr utc)"

definition loadPersistedUVMConfig ::
  "('w, 'k) regstate \<Rightarrow> string \<Rightarrow> 'w \<Rightarrow> (error + persistedUVMConfig) \<times> 'w" where
  "loadPersistedUVMConfig rs ID w =
     (case regstate_Open rs configRoot False w of
        (Inl err, w1) \<Rightarrow> (Inl err, w1)
      | (Inr sk, w1) \<Rightarrow>
          (let puc = \<lparr>RawData = [], Stored = True\<rparr> in
           case regstate_Get rs sk ID configKey puc w1 of
             (Inl err, w2) \<Rightarrow> (Inl err, regstate_Close rs sk w2)
           | (Inr puc', w2) \<Rightarrow> (Inr puc', regstate_Close rs sk w2)))"

text \<open>
  \<^verbatim>\<open>storePersistedUVMConfig\<close> writes through the pointer \<^verbatim>\<open>puc\<close>, so the model returns
  the record as the call leaves it, next to the error and the world.
\<close>

definition storePersistedUVMConfig ::
  "('w, 'k) regstate \<Rightarrow> string \<Rightarrow> persistedUVMConfig \<Rightarrow> 'w
     \<Rightarrow> error option \<times> persistedUVMConfig \<times> 'w" where
  "storePersistedUVMConfig rs ID puc w =
     (case regstate_Open rs configRoot False w of
        (Inl err, w1) \<Rightarrow> (Some err, puc, w1)
      | (Inr sk, w1) \<Rightarrow>
          (if Stored puc then
             (case regstate_Set rs sk ID configKey puc w1 of
                (Some err, w2) \<Rightarrow> (Some err, puc, regstate_Close rs sk w2)
              | (None, w2) \<Rightarrow> (None, puc\<lparr>Stored := True\<rparr>, regstate_Close rs sk w2))
           else
             (case regstate_Create rs sk ID configKey puc w1 of
                (Some err, w2) \<Rightarrow> (Some err, puc, regstate_Close rs sk w2)
              | (None, w2) \<Rightarrow> (None, puc\<lparr>Stored := True\<rparr>, regstate_Close rs sk w2))))"

definition removePersistedUVMConfig ::
  "('w, 'k) regstate \<Rightarrow> string \<Rightarrow> 'w \<Rightarrow> error option \<times> 'w" where
  "removePersistedUVMConfig rs ID w =
     (case regstate_Open rs configRoot False w of
        (Inl err, w1) \<Rightarrow>
          (if IsNotFoundError (Some err) then (None, w1) else (Some err, w1))
      | (Inr sk, w1) \<Rightarrow>
          (case regstate_Remove rs sk ID w1 of
             (Some err, w2) \<Rightarrow>
               (if IsNotFoundError (Some err) then (None, regstate_Close rs sk w2)
                else (Some err, regstate_Close rs sk w2))
           | (None, w2) \<Rightarrow> (None, regstate_Close rs sk w2)))"

text \<open>
  In \<^verbatim>\<open>SaveTemplateConfig\<close> the error of the load is tested with
  \<^verbatim>\<open>!regstate.IsNotFoundError(err)\<close> and then formatted with \<^verbatim>\<open>err.Error()\<close>. When the
  load succeeded \<^verbatim>\<open>err\<close> is the nil interface, and the method call on it panics before
  \<^verbatim>\<open>fmt.Errorf\<close> is entered.
\<close>

definition SaveTemplateConfig ::
  "('w, 'k) regstate \<Rightarrow> ('v, 's) gob \<Rightarrow> ('v, 's) UVMTemplateConfig \<Rightarrow> 'w \<Rightarrow> outcome \<times> 'w" where
  "SaveTemplateConfig rs g utc w =
     (case loadPersistedUVMConfig rs (UVMID utc) w of
        (loaded, w1) \<Rightarrow>
          (let err = (case loaded of Inl e \<Rightarrow> Some e | Inr puc \<Rightarrow> None) in
           if \<not> IsNotFoundError err then
             (case err of
                None \<Rightarrow> (Panic nil_dereference, w1)
              | Some e \<Rightarrow>
                  (Return (Some (Errorf
                     ''Parent VM(ID: %s) config shouldn't exit in registry (%s) \<newline>''
                     [ArgString (UVMID utc), ArgError e])), w1))
           else
             (case encodeTemplateConfig g utc of
                Inl e \<Rightarrow> (Return (Some e), w1)
              | Inr encodedBytes \<Rightarrow>
                  (let puc = \<lparr>RawData = encodedBytes, Stored = False\<rparr> in
                   case storePersistedUVMConfig rs (UVMID utc) puc w1 of
                     (Some e, puc', w2) \<Rightarrow> (Return (Some e), w2)
                   | (None, puc', w2) \<Rightarrow> (Return None, w2)))))"

definition RemoveSavedTemplateConfig ::
  "('w, 'k) regstate \<Rightarrow> string \<Rightarrow> 'w \<Rightarrow> error option \<times> 'w" where
  "RemoveSavedTemplateConfig rs ID w = removePersistedUVMConfig rs ID w"

definition FetchTemplateConfig ::
  "('w, 'k) regstate \<Rightarrow> ('v, 's) gob \<Rightarrow> string \<Rightarrow> 'w
     \<Rightarrow> (error + ('v, 's) UVMTemplateConfig) \<times> 'w" where
  "FetchTemplateConfig rs g ID w =
     (case loadPersistedUVMConfig rs ID w of
        (Inl err, w1) \<Rightarrow> (Inl err, w1)
      | (Inr puc, w1) \<Rightarrow>
          (case decodeTemplateConfig g (RawData puc) of
             Inl err \<Rightarrow> (Inl err, w1)
           | Inr utc \<Rightarrow> (Inr utc, w1)))"

section \<open>Package uvm: pausing and saving (internal/uvm/clone.go)\<close>

definition hcsSaveOptions :: string where
  "hcsSaveOptions = ''{\"SaveType\": \"AsTemplate\"}''"

text \<open>
  The guest and its compute system are external: the calls the two orchestrating functions
  make on \<^verbatim>\<open>host\<close> are parameters acting on the world. \<open>uvm_struct\<close> reads the
  in-memory \<^verbatim>\<open>UtilityVM\<close> as it stands in a world.
\<close>

record ('w, 'v, 's) host =
  RemoveAllNICs :: "'w \<Rightarrow> error option \<times> 'w"
  CloseGCSConnection :: "'w \<Rightarrow> error option \<times> 'w"
  hcsSystem_Pause :: "'w \<Rightarrow> error option \<times> 'w"
  hcsSystem_Save :: "string \<Rightarrow> 'w \<Rightarrow> error option \<times> 'w"
  uvm_struct :: "'w \<Rightarrow> ('v, 's) UtilityVM"

text \<open>
  The calls a run makes on its collaborators, in order, each with what it returned. The
  functions below return this list next to their result, so that a statement about which
  step ran, and after which, is a statement about the list.
\<close>

datatype ('v, 's) step =
    StepRemoveAllNICs "error option"
  | StepCloseGCSConnection "error option"
  | StepSaveTemplateConfig "('v, 's) UVMTemplateConfig" outcome
  | StepPause "error option"
  | StepSave string "error option"

definition SaveAsTemplate ::
  "('w, 'v, 's) host \<Rightarrow> 'w \<Rightarrow> error option \<times> ('v, 's) step list \<times> 'w" where
  "SaveAsTemplate h w =
     (case hcsSystem_Pause h w of
        (Some err, w1) \<Rightarrow> (Some (Wrap err ''error pausing the VM''), [StepPause (Some err)], w1)
      | (None, w1) \<Rightarrow>
          (case hcsSystem_Save h hcsSaveOptions w1 of
             (Some err, w2) \<Rightarrow>
               (Some (Wrap err ''error saving the VM''),
                [StepPause None, StepSave hcsSaveOptions (Some err)], w2)
           | (None, w2) \<Rightarrow>
               (None, [StepPause None, StepSave hcsSaveOptions None], w2)))"

section \<open>The shim: saving a guest as a template (cmd/containerd-shim-runhcs-v1/clone.go)\<close>

text \<open>
  \<open>dirKeys\<close> and \<open>fileKeys\<close> are the orders in which the call of
  \<^verbatim>\<open>host.GenerateTemplateConfig()\<close> visits the two share maps.
\<close>

definition saveAsTemplate ::
  "('w, 'v, 's) host \<Rightarrow> ('w, 'k) regstate \<Rightarrow> ('v, 's) gob \<Rightarrow> string list \<Rightarrow> string list \<Rightarrow> 'w
     \<Rightarrow> outcome \<times> ('v, 's) step list \<times> 'w" where
  "saveAsTemplate h rs g dirKeys fileKeys w =
     (case RemoveAllNICs h w of
        (Some err, w1) \<Rightarrow> (Return (Some err), [StepRemoveAllNICs (Some err)], w1)
      | (None, w1) \<Rightarrow>
          (case CloseGCSConnection h w1 of
             (Some err, w2) \<Rightarrow>
               (Return (Some err),
                [StepRemoveAllNICs None, StepCloseGCSConnection (Some err)], w2)
           | (None, w2) \<Rightarrow>
               (let utc = GenerateTemplateConfig (uvm_struct h w2) dirKeys fileKeys in
                case SaveTemplateConfig rs g utc w2 of
                  (Panic p, w3) \<Rightarrow>
                    (Panic p,
                     [StepRemoveAllNICs None, StepCloseGCSConnection None,
                      StepSaveTemplateConfig utc (Panic p)], w3)
                | (Return (Some err), w3) \<Rightarrow>
                    (Return (Some err),
                     [StepRemoveAllNICs None, StepCloseGCSConnection None,
                      StepSaveTemplateConfig utc (Return (Some err))], w3)
                | (Return None, w3) \<Rightarrow>
                    (case SaveAsTemplate h w3 of
                       (err, steps, w4) \<Rightarrow>
                         (Return err,
                          [StepRemoveAllNICs None, StepCloseGCSConnection None,
                           StepSaveTemplateConfig utc (Return None)] @ steps, w4)))))"

section \<open>Package hcsoci: network namespace setup (internal/hcsoci/network.go)\<close>

text \<open>
  Modelled from the spec: the three objects that travel between the provider and the
  guest, declared in the packages \<^verbatim>\<open>hns\<close> and \<^verbatim>\<open>hcn\<close>. The code reads and
  writes one field of each: the identifier of a namespace object, and the namespace
  reference of an endpoint, a pointer that may be nil. Whatever else the structs hold is
  the type parameter.
\<close>

record Namespace =
  Namespace_ID :: string

record 'e HNSEndpoint =
  HNSEndpoint_Namespace :: "Namespace option"
  HNSEndpoint_rest :: 'e

record 'n HostComputeNamespace =
  HostComputeNamespace_Id :: string
  HostComputeNamespace_rest :: 'n

text \<open>
  The provider (\<^verbatim>\<open>hns\<close>, \<^verbatim>\<open>hcn\<close>) and the guest (\<^verbatim>\<open>hostingSystem\<close>) are parameters
  acting on a world, and so is the reserved identifier
  \<^verbatim>\<open>hns.CLONING_DEFAULT_NETWORK_NAMESPACE_ID\<close>, whose value is declared outside this file.
\<close>

record ('w, 'n, 'e) network =
  CLONING_DEFAULT_NETWORK_NAMESPACE_ID :: string
  hns_GetNamespaceEndpoints :: "string \<Rightarrow> 'w \<Rightarrow> (error + string list) \<times> 'w"
  hns_GetHNSEndpointByID :: "string \<Rightarrow> 'w \<Rightarrow> (error + 'e HNSEndpoint) \<times> 'w"
  hcn_GetNamespaceByID :: "string \<Rightarrow> 'w \<Rightarrow> (error + 'n HostComputeNamespace) \<times> 'w"
  AddNetNSRaw :: "'n HostComputeNamespace \<Rightarrow> 'w \<Rightarrow> error option \<times> 'w"
  AddEndpointsToNS :: "string \<Rightarrow> 'e HNSEndpoint list \<Rightarrow> 'w \<Rightarrow> error option \<times> 'w"
  RemoveNetNS :: "string \<Rightarrow> 'w \<Rightarrow> error option \<times> 'w"

text \<open>
  The calls of a run, in order, each with its arguments and what it returned; the last
  constructor is the warning \<^verbatim>\<open>log.G(ctx).Warn(removeErr)\<close>. The debug lines that
  \<^verbatim>\<open>GetNamespaceEndpoints\<close> logs on entry and exit are left out.
\<close>

datatype ('n, 'e) call =
    CallGetNamespaceEndpoints string "error + string list"
  | CallGetHNSEndpointByID string "error + 'e HNSEndpoint"
  | CallGetNamespaceByID string "error + 'n HostComputeNamespace"
  | CallAddNetNSRaw "'n HostComputeNamespace" "error option"
  | CallAddEndpointsToNS string "'e HNSEndpoint list" "error option"
  | CallRemoveNetNS string "error option"
  | LogWarn error

text \<open>The loop of \<^verbatim>\<open>GetNamespaceEndpoints\<close> over the ids (lines 62-68).\<close>

fun endpointsByID ::
  "('w, 'n, 'e) network \<Rightarrow> string list \<Rightarrow> 'e HNSEndpoint list \<Rightarrow> 'w
     \<Rightarrow> (error + 'e HNSEndpoint list) \<times> ('n, 'e) call list \<times> 'w" where
  "endpointsByID net [] endpoints w = (Inr endpoints, [], w)"
| "endpointsByID net (ident # ids) endpoints w =
     (case hns_GetHNSEndpointByID net ident w of
        (Inl err, w1) \<Rightarrow> (Inl err, [CallGetHNSEndpointByID ident (Inl err)], w1)
      | (Inr endpoint, w1) \<Rightarrow>
          (case endpointsByID net ids (endpoints @ [endpoint]) w1 of
             (res, calls, w2) \<Rightarrow>
               (res, CallGetHNSEndpointByID ident (Inr endpoint) # calls, w2)))"

definition GetNamespaceEndpoints ::
  "('w, 'n, 'e) network \<Rightarrow> string \<Rightarrow> 'w
     \<Rightarrow> (error + 'e HNSEndpoint list) \<times> ('n, 'e) call list \<times> 'w" where
  "GetNamespaceEndpoints net netNS w =
     (case hns_GetNamespaceEndpoints net netNS w of
        (Inl err, w1) \<Rightarrow> (Inl err, [CallGetNamespaceEndpoints netNS (Inl err)], w1)
      | (Inr ids, w1) \<Rightarrow>
          (case endpointsByID net ids [] w1 of
             (res, calls, w2) \<Rightarrow>
               (res, CallGetNamespaceEndpoints netNS (Inr ids) # calls, w2)))"

text \<open>
  \<^verbatim>\<open>SetupNetworkNamespace\<close>, lines 105-108: the identifier the guest is to see.
\<close>

definition nsidInsideUVM :: "('w, 'n, 'e) network \<Rightarrow> string \<Rightarrow> bool \<Rightarrow> bool \<Rightarrow> string" where
  "nsidInsideUVM net nsid isTemplate isClone =
     (if isTemplate \<or> isClone then CLONING_DEFAULT_NETWORK_NAMESPACE_ID net else nsid)"

text \<open>
  Lines 118-134: the block under \<^verbatim>\<open>if !isClone\<close>, which fetches the namespace object by
  the real id, overwrites its \<^verbatim>\<open>Id\<close> for a template and hot-adds it. The recorded
  \<open>CallGetNamespaceByID\<close> holds the object as the provider returned it.
\<close>

definition addNamespace ::
  "('w, 'n, 'e) network \<Rightarrow> string \<Rightarrow> string \<Rightarrow> bool \<Rightarrow> 'w
     \<Rightarrow> error option \<times> ('n, 'e) call list \<times> 'w" where
  "addNamespace net nsid inside isTemplate w =
     (case hcn_GetNamespaceByID net nsid w of
        (Inl err, w1) \<Rightarrow> (Some err, [CallGetNamespaceByID nsid (Inl err)], w1)
      | (Inr fetched, w1) \<Rightarrow>
          (let hcnNamespace =
                 (if isTemplate then fetched\<lparr>HostComputeNamespace_Id := inside\<rparr> else fetched)
           in case AddNetNSRaw net hcnNamespace w1 of
                (err, w2) \<Rightarrow>
                  (err,
                   [CallGetNamespaceByID nsid (Inr fetched), CallAddNetNSRaw hcnNamespace err],
                   w2)))"

text \<open>
  Lines 138-145: for a clone or a template the namespace reference of every endpoint is
  replaced by one that holds the guest-visible identifier.
\<close>

definition replaceNamespace ::
  "string \<Rightarrow> bool \<Rightarrow> bool \<Rightarrow> 'e HNSEndpoint list \<Rightarrow> 'e HNSEndpoint list" where
  "replaceNamespace inside isTemplate isClone endpoints =
     (if isClone \<or> isTemplate
      then map (\<lambda>ep. ep\<lparr>HNSEndpoint_Namespace := Some \<lparr>Namespace_ID = inside\<rparr>\<rparr>) endpoints
      else endpoints)"

text \<open>
  Lines 147-154: the endpoints are hot-added under the guest-visible identifier; when that
  fails the namespace is removed from the guest, a failure of the removal is logged, and
  the error of the hot-add is returned.
\<close>

definition addEndpoints ::
  "('w, 'n, 'e) network \<Rightarrow> string \<Rightarrow> 'e HNSEndpoint list \<Rightarrow> 'w
     \<Rightarrow> error option \<times> ('n, 'e) call list \<times> 'w" where
  "addEndpoints net inside endpoints w =
     (case AddEndpointsToNS net inside endpoints w of
        (Some err, w1) \<Rightarrow>
          (case RemoveNetNS net inside w1 of
             (Some removeErr, w2) \<Rightarrow>
               (Some err,
                [CallAddEndpointsToNS inside endpoints (Some err),
                 CallRemoveNetNS inside (Some removeErr), LogWarn removeErr], w2)
           | (None, w2) \<Rightarrow>
               (Some err,
                [CallAddEndpointsToNS inside endpoints (Some err),
                 CallRemoveNetNS inside None], w2))
      | (None, w1) \<Rightarrow>
          (None, [CallAddEndpointsToNS inside endpoints None], w1))"

definition SetupNetworkNamespace ::
  "('w, 'n, 'e) network \<Rightarrow> string \<Rightarrow> bool \<Rightarrow> bool \<Rightarrow> 'w
     \<Rightarrow> error option \<times> ('n, 'e) call list \<times> 'w" where
  "SetupNetworkNamespace net nsid isTemplate isClone w =
     (let inside = nsidInsideUVM net nsid isTemplate isClone
      in case GetNamespaceEndpoints net nsid w of
           (Inl err, calls1, w1) \<Rightarrow> (Some err, calls1, w1)
         | (Inr endpoints, calls1, w1) \<Rightarrow>
             (case (if \<not> isClone then addNamespace net nsid inside isTemplate w1
                    else (None, [], w1)) of
                (Some err, calls2, w2) \<Rightarrow> (Some err, calls1 @ calls2, w2)
              | (None, calls2, w2) \<Rightarrow>
                  (case addEndpoints net inside
                          (replaceNamespace inside isTemplate isClone endpoints) w2 of
                     (err, calls3, w3) \<Rightarrow> (err, calls1 @ calls2 @ calls3, w3))))"

text \<open>
  Two readings of a list of calls, used to state what a run did: the endpoint objects
  the provider returned, in order, and whether a call is an endpoint lookup by id.
\<close>

fun fetchedEndpoints :: "('n, 'e) call list \<Rightarrow> 'e HNSEndpoint list" where
  "fetchedEndpoints [] = []"
| "fetchedEndpoints (CallGetHNSEndpointByID ident (Inr endpoint) # calls) =
     endpoint # fetchedEndpoints calls"
| "fetchedEndpoints (c # calls) = fetchedEndpoints calls"

fun isEndpointLookup :: "('n, 'e) call \<Rightarrow> bool" where
  "isEndpointLookup (CallGetHNSEndpointByID ident r) = True"
| "isEndpointLookup c = False"

section \<open>Collaborators to run the definitions on\<close>

text \<open>
  Modelled from the spec: a backing store standing for package \<^verbatim>\<open>regstate\<close>, as
  the spec's external interface describes it. \<open>Create\<close> fails when a record for the id
  exists, \<open>Set\<close> overwrites, \<open>Get\<close> and \<open>Remove\<close> fail with the \<open>NotFound\<close> kind when
  the record is absent. The world is the content of the one root the code opens: per id,
  the values under their keys.
\<close>

type_synonym registry = "string \<rightharpoonup> (string \<rightharpoonup> persistedUVMConfig)"

definition kvstore :: "(registry, unit) regstate" where
  "kvstore =
     \<lparr>regstate_Open = (\<lambda>root perVM w. (Inr (), w)),
      regstate_Get = (\<lambda>sk ident key out w.
        (case w ident of
           None \<Rightarrow> Inl (NotFoundError ident)
         | Some entry \<Rightarrow>
             (case entry key of
                None \<Rightarrow> Inl (NotFoundError ident)
              | Some v \<Rightarrow> Inr v), w)),
      regstate_Set = (\<lambda>sk ident key v w.
        (None, w(ident \<mapsto> (case w ident of None \<Rightarrow> Map.empty | Some entry \<Rightarrow> entry)(key \<mapsto> v)))),
      regstate_Create = (\<lambda>sk ident key v w.
        (case w ident of
           Some entry \<Rightarrow> (Some (ExternalError ''already exists''), w)
         | None \<Rightarrow> (None, w(ident \<mapsto> [key \<mapsto> v])))),
      regstate_Remove = (\<lambda>sk ident w.
        (case w ident of
           None \<Rightarrow> (Some (NotFoundError ident), w)
         | Some entry \<Rightarrow> (None, w(ident := None)))),
      regstate_Close = (\<lambda>sk w. w)\<rparr>"

text \<open>
  An encoder that yields the given bytes for every config, and a decoder that rejects
  every input: enough to run the store functions, which never look into the bytes.
\<close>

definition constant_gob :: "char list \<Rightarrow> ('v, 's) gob" where
  "constant_gob bytes =
     \<lparr>gob_Encode = (\<lambda>utc. Inr bytes),
      gob_Decode = (\<lambda>encoded. Inl (ExternalError ''unexpected EOF''))\<rparr>"

text \<open>A guest whose four calls return the given results and leave the world as it is.\<close>

definition scripted_host ::
  "error option \<Rightarrow> error option \<Rightarrow> error option \<Rightarrow> error option \<Rightarrow> ('v, 's) UtilityVM
     \<Rightarrow> ('w, 'v, 's) host" where
  "scripted_host nics gcs pause save vm =
     \<lparr>RemoveAllNICs = (\<lambda>w. (nics, w)),
      CloseGCSConnection = (\<lambda>w. (gcs, w)),
      hcsSystem_Pause = (\<lambda>w. (pause, w)),
      hcsSystem_Save = (\<lambda>options w. (save, w)),
      uvm_struct = (\<lambda>w. vm)\<rparr>"

text \<open>
  A provider that knows the endpoints \<open>ids\<close> for every namespace, answers every lookup
  with an object carrying the id asked for, and a guest whose three calls return the
  given results. The world is left as it is.
\<close>

definition scripted_network ::
  "string \<Rightarrow> string list \<Rightarrow> error option \<Rightarrow> error option \<Rightarrow> error option
     \<Rightarrow> ('w, unit, string) network" where
  "scripted_network reserved ids addNS addEndpointsResult removeNS =
     \<lparr>CLONING_DEFAULT_NETWORK_NAMESPACE_ID = reserved,
      hns_GetNamespaceEndpoints = (\<lambda>nsid w. (Inr ids, w)),
      hns_GetHNSEndpointByID = (\<lambda>ident w.
        (Inr \<lparr>HNSEndpoint_Namespace = None, HNSEndpoint_rest = ident\<rparr>, w)),
      hcn_GetNamespaceByID = (\<lambda>nsid w. (Inr \<lparr>HostComputeNamespace_Id = nsid, HostComputeNamespace_rest = ()\<rparr>, w)),
      AddNetNSRaw = (\<lambda>ns w. (addNS, w)),
      AddEndpointsToNS = (\<lambda>nsid endpoints w. (addEndpointsResult, w)),
      RemoveNetNS = (\<lambda>nsid w. (removeNS, w))\<rparr>"

text \<open>
  The same provider with a guest that keeps the identifiers of the namespaces it holds:
  the world is that list. The hot-add of a namespace adds its \<^verbatim>\<open>Id\<close>, the hot-add of
  endpoints is refused with the given error, and a removal takes the identifier out,
  failing when the guest does not hold it.
\<close>

definition refusing_guest :: "string \<Rightarrow> string list \<Rightarrow> error \<Rightarrow> (string list, unit, string) network" where
  "refusing_guest reserved ids refusal =
     \<lparr>CLONING_DEFAULT_NETWORK_NAMESPACE_ID = reserved,
      hns_GetNamespaceEndpoints = (\<lambda>nsid w. (Inr ids, w)),
      hns_GetHNSEndpointByID = (\<lambda>ident w.
        (Inr \<lparr>HNSEndpoint_Namespace = None, HNSEndpoint_rest = ident\<rparr>, w)),
      hcn_GetNamespaceByID = (\<lambda>nsid w. (Inr \<lparr>HostComputeNamespace_Id = nsid, HostComputeNamespace_rest = ()\<rparr>, w)),
      AddNetNSRaw = (\<lambda>ns w. (None, HostComputeNamespace_Id ns # w)),
      AddEndpointsToNS = (\<lambda>nsid endpoints w. (Some refusal, w)),
      RemoveNetNS = (\<lambda>nsid w.
        (if nsid \<in> set w then None else Some (ExternalError ''namespace not found''),
         removeAll nsid w))\<rparr>"

section \<open>The persisted template store\<close>

text \<open>
  C4. \<^verbatim>\<open>storePersistedUVMConfig\<close>: once the root key is open, the call on the backing
  store is \<open>Create\<close> when \<open>Stored\<close> of the record is false and \<open>Set\<close> (an overwrite) when
  it is true, and no other; the error of that call is the error returned; the record
  comes back with \<open>Stored\<close> set to true when the call succeeded and untouched when it
  failed.
\<close>

theorem storePersistedUVMConfig_create_or_update:
  assumes "regstate_Open rs configRoot False w = (Inr sk, w1)"
  shows "\<exists>r w2.
           (if Stored puc then regstate_Set rs sk ID configKey puc w1
            else regstate_Create rs sk ID configKey puc w1) = (r, w2) \<and>
           storePersistedUVMConfig rs ID puc w =
             (r, (if r = None then puc\<lparr>Stored := True\<rparr> else puc), regstate_Close rs sk w2)"
  using assms by (auto simp: storePersistedUVMConfig_def split: prod.splits option.splits)

theorem storePersistedUVMConfig_create_or_update_witness:
  "storePersistedUVMConfig kvstore ''vm-123'' \<lparr>RawData = ''blob'', Stored = False\<rparr> Map.empty =
     (None, \<lparr>RawData = ''blob'', Stored = True\<rparr>,
      [''vm-123'' \<mapsto> [configKey \<mapsto> \<lparr>RawData = ''blob'', Stored = False\<rparr>]]) \<and>
   storePersistedUVMConfig kvstore ''vm-123'' \<lparr>RawData = ''blob2'', Stored = False\<rparr>
      [''vm-123'' \<mapsto> [configKey \<mapsto> \<lparr>RawData = ''blob'', Stored = False\<rparr>]] =
     (Some (ExternalError ''already exists''), \<lparr>RawData = ''blob2'', Stored = False\<rparr>,
      [''vm-123'' \<mapsto> [configKey \<mapsto> \<lparr>RawData = ''blob'', Stored = False\<rparr>]]) \<and>
   storePersistedUVMConfig kvstore ''vm-123'' \<lparr>RawData = ''blob2'', Stored = True\<rparr>
      [''vm-123'' \<mapsto> [configKey \<mapsto> \<lparr>RawData = ''blob'', Stored = False\<rparr>]] =
     (None, \<lparr>RawData = ''blob2'', Stored = True\<rparr>,
      [''vm-123'' \<mapsto> [configKey \<mapsto> \<lparr>RawData = ''blob2'', Stored = True\<rparr>]])"
  using storePersistedUVMConfig_create_or_update
    [of kvstore Map.empty "()" Map.empty "\<lparr>RawData = ''blob'', Stored = False\<rparr>" "''vm-123''"]
  by (simp add: kvstore_def storePersistedUVMConfig_def)

text \<open>
  C6. \<^verbatim>\<open>FetchTemplateConfig\<close> for an id without a persisted record: the backing store
  answers the \<open>Get\<close> with its \<open>NotFound\<close> error, and that very error is what the fetch
  returns, for every decoder; it is not the error \<^verbatim>\<open>decodeTemplateConfig\<close> forms.
\<close>

theorem FetchTemplateConfig_not_found:
  assumes "regstate_Open rs configRoot False w = (Inr sk, w1)"
    and "regstate_Get rs sk ID configKey \<lparr>RawData = [], Stored = True\<rparr> w1 = (Inl err, w2)"
    and "IsNotFoundError (Some err)"
  shows "FetchTemplateConfig rs g ID w = (Inl err, regstate_Close rs sk w2) \<and>
         (\<forall>format args. err \<noteq> Errorf format args)"
  using assms by (auto simp: FetchTemplateConfig_def loadPersistedUVMConfig_def)

theorem FetchTemplateConfig_not_found_witness:
  "regstate_Open kvstore configRoot False Map.empty = (Inr (), Map.empty) \<and>
   regstate_Get kvstore () ''vm-123'' configKey \<lparr>RawData = [], Stored = True\<rparr> Map.empty =
     (Inl (NotFoundError ''vm-123''), Map.empty) \<and>
   IsNotFoundError (Some (NotFoundError ''vm-123'')) \<and>
   FetchTemplateConfig kvstore (constant_gob ''blob'' :: (string, nat) gob) ''vm-123'' Map.empty =
     (Inl (NotFoundError ''vm-123''), Map.empty)"
  using FetchTemplateConfig_not_found
    [of kvstore Map.empty "()" Map.empty "''vm-123''" "NotFoundError ''vm-123''" Map.empty
        "constant_gob ''blob'' :: (string, nat) gob"]
  by (simp add: kvstore_def)

text \<open>
  C7. \<^verbatim>\<open>RemoveSavedTemplateConfig\<close> for an id without a persisted record: whether the
  store reports \<open>NotFound\<close> when the root key is opened or when the record is removed,
  or removes without complaint, the call returns nil. On the store of the witness a
  removal right after a successful removal returns nil as well.
\<close>

theorem RemoveSavedTemplateConfig_absent:
  assumes "(regstate_Open rs configRoot False w = (Inl err, w') \<and> IsNotFoundError (Some err)) \<or>
           (\<exists>sk w1 r w2. regstate_Open rs configRoot False w = (Inr sk, w1) \<and>
                        regstate_Remove rs sk ID w1 = (r, w2) \<and>
                        (r = None \<or> IsNotFoundError r) \<and>
                        w' = regstate_Close rs sk w2)"
  shows "RemoveSavedTemplateConfig rs ID w = (None, w')"
  using assms
  by (auto simp: RemoveSavedTemplateConfig_def removePersistedUVMConfig_def split: option.splits)

theorem RemoveSavedTemplateConfig_absent_witness:
  "RemoveSavedTemplateConfig kvstore ''vm-123'' Map.empty = (None, Map.empty) \<and>
   fst (RemoveSavedTemplateConfig kvstore ''vm-123''
          [''vm-123'' \<mapsto> [configKey \<mapsto> \<lparr>RawData = ''blob'', Stored = False\<rparr>]]) = None \<and>
   fst (RemoveSavedTemplateConfig kvstore ''vm-123''
          (snd (RemoveSavedTemplateConfig kvstore ''vm-123''
             [''vm-123'' \<mapsto> [configKey \<mapsto> \<lparr>RawData = ''blob'', Stored = False\<rparr>]]))) = None"
  using RemoveSavedTemplateConfig_absent
    [of kvstore Map.empty "NotFoundError ''vm-123''" Map.empty "''vm-123''"]
  by (simp add: kvstore_def RemoveSavedTemplateConfig_def removePersistedUVMConfig_def)

text \<open>
  Whenever the load inside \<^verbatim>\<open>SaveTemplateConfig\<close> finds a record, the call panics and
  leaves the world as the load left it.
\<close>

lemma SaveTemplateConfig_loaded_panics:
  "loadPersistedUVMConfig rs (UVMID utc) w = (Inr puc, w1) \<Longrightarrow>
   SaveTemplateConfig rs g utc w = (Panic nil_dereference, w1)"
  by (simp add: SaveTemplateConfig_def)

lemma SaveTemplateConfig_loaded_panics_witness:
  "loadPersistedUVMConfig kvstore ''vm-123''
     [''vm-123'' \<mapsto> [configKey \<mapsto> \<lparr>RawData = ''blob'', Stored = False\<rparr>]] =
     (Inr \<lparr>RawData = ''blob'', Stored = False\<rparr>,
      [''vm-123'' \<mapsto> [configKey \<mapsto> \<lparr>RawData = ''blob'', Stored = False\<rparr>]]) \<and>
   SaveTemplateConfig kvstore (constant_gob ''other'')
     \<lparr>UVMID = ''vm-123'', Resources = [VSMBShare ''shareA'', SCSIMount ''mountB'']\<rparr>
     [''vm-123'' \<mapsto> [configKey \<mapsto> \<lparr>RawData = ''blob'', Stored = False\<rparr>]] =
     (Panic nil_dereference,
      [''vm-123'' \<mapsto> [configKey \<mapsto> \<lparr>RawData = ''blob'', Stored = False\<rparr>]])"
proof -
  have loaded: "loadPersistedUVMConfig kvstore
      (UVMID \<lparr>UVMID = ''vm-123'', Resources = [VSMBShare ''shareA'', SCSIMount ''mountB'']\<rparr>)
      [''vm-123'' \<mapsto> [configKey \<mapsto> \<lparr>RawData = ''blob'', Stored = False\<rparr>]] =
      (Inr \<lparr>RawData = ''blob'', Stored = False\<rparr>,
       [''vm-123'' \<mapsto> [configKey \<mapsto> \<lparr>RawData = ''blob'', Stored = False\<rparr>]])"
    by (simp add: loadPersistedUVMConfig_def kvstore_def)
  from SaveTemplateConfig_loaded_panics[OF loaded, of "constant_gob ''other''"] loaded
  show ?thesis by simp
qed

text \<open>
  C1. \<^verbatim>\<open>SaveTemplateConfig\<close> called twice for the same id: on the empty store the
  first call for \<open>vm-123\<close> returns nil and creates the record; the second call panics
  with a nil dereference instead of returning an error. The record of the first call is
  unchanged.
\<close>

theorem SaveTemplateConfig_twice_panics:
  "SaveTemplateConfig kvstore (constant_gob ''blob'')
     \<lparr>UVMID = ''vm-123'', Resources = [VSMBShare ''shareA'', SCSIMount ''mountB'']\<rparr> Map.empty =
     (Return None, [''vm-123'' \<mapsto> [configKey \<mapsto> \<lparr>RawData = ''blob'', Stored = False\<rparr>]]) \<and>
   SaveTemplateConfig kvstore (constant_gob ''blob'')
     \<lparr>UVMID = ''vm-123'', Resources = [VSMBShare ''shareA'', SCSIMount ''mountB'']\<rparr>
     [''vm-123'' \<mapsto> [configKey \<mapsto> \<lparr>RawData = ''blob'', Stored = False\<rparr>]] =
     (Panic nil_dereference,
      [''vm-123'' \<mapsto> [configKey \<mapsto> \<lparr>RawData = ''blob'', Stored = False\<rparr>]])"
  by (simp add: SaveTemplateConfig_def loadPersistedUVMConfig_def storePersistedUVMConfig_def
      encodeTemplateConfig_def kvstore_def constant_gob_def)

section \<open>Building the template config\<close>

lemma appendShares_eq:
  "appendShares shares keys resources =
     resources @ map VSMBShare [share. key \<leftarrow> keys, Some (Some share) \<leftarrow> [shares key]]"
  by (induction keys arbitrary: resources) (auto split: option.splits)

lemma appendMounts_eq:
  "appendMounts slots resources = resources @ map SCSIMount [mount. Some mount \<leftarrow> slots]"
  by (induction slots arbitrary: resources) (auto split: option.splits)

lemma appendLocations_eq:
  "appendLocations locations resources =
     resources @ map SCSIMount [mount. Some mount \<leftarrow> concat locations]"
  by (induction locations arbitrary: resources) (auto simp: appendMounts_eq)

lemma no_attachment: "(\<forall>slot \<in> set slots. slot = None) \<Longrightarrow> [x. Some x \<leftarrow> slots] = []"
  by (induction slots) auto

lemma visited_shares_set:
  "set [share. key \<leftarrow> keys, Some (Some share) \<leftarrow> [shares key]] =
     {share. \<exists>key \<in> set keys. shares key = Some (Some share)}"
  by (induction keys) (auto split: option.splits)

lemma visited_shares_length:
  "length [share. key \<leftarrow> keys, Some (Some share) \<leftarrow> [shares key]] =
     length (filter (\<lambda>key. \<exists>share. shares key = Some (Some share)) keys)"
  by (induction keys) (auto split: option.splits)

lemma rangeOrder_shares:
  assumes "rangeOrder shares keys"
  shows "set [share. key \<leftarrow> keys, Some (Some share) \<leftarrow> [shares key]] =
           {share. \<exists>key. shares key = Some (Some share)}"
    and "length [share. key \<leftarrow> keys, Some (Some share) \<leftarrow> [shares key]] =
           card {key. \<exists>share. shares key = Some (Some share)}"
proof -
  from assms have d: "distinct keys" and k: "set keys = dom shares"
    by (simp_all add: rangeOrder_def)
  show "set [share. key \<leftarrow> keys, Some (Some share) \<leftarrow> [shares key]] =
           {share. \<exists>key. shares key = Some (Some share)}"
    unfolding visited_shares_set using k by auto
  have "{key. \<exists>share. shares key = Some (Some share)} =
        set (filter (\<lambda>key. \<exists>share. shares key = Some (Some share)) keys)"
    using k by auto
  moreover have "distinct (filter (\<lambda>key. \<exists>share. shares key = Some (Some share)) keys)"
    using d by simp
  ultimately show "length [share. key \<leftarrow> keys, Some (Some share) \<leftarrow> [shares key]] =
           card {key. \<exists>share. shares key = Some (Some share)}"
    unfolding visited_shares_length by (simp only: distinct_card)
qed

lemma no_share:
  "\<forall>key. shares key \<noteq> None \<longrightarrow> shares key = Some None \<Longrightarrow>
   [share. key \<leftarrow> keys, Some (Some share) \<leftarrow> [shares key]] = []"
  by (induction keys) (auto split: option.splits)

text \<open>
  C8, as amended. \<^verbatim>\<open>GenerateTemplateConfig\<close> never fails and carries the guest's id. Its
  resource list is the directory shares, then the file shares, then the mounts, so every
  share stands before every mount. The mounts come controller by controller in slot
  order, nil slots skipped. The shares of each map come in the order the loop of this
  call visits the map: whatever that order, every key that holds a share contributes it
  once and nil entries are skipped. When no share and no mount is attached the list is
  empty.
\<close>

theorem GenerateTemplateConfig_shares_then_mounts:
  assumes dir: "rangeOrder (vsmbDirShares uvm) dirKeys"
    and fil: "rangeOrder (vsmbFileShares uvm) fileKeys"
  shows "UVMID (GenerateTemplateConfig uvm dirKeys fileKeys) = uvm_ID uvm \<and>
   Resources (GenerateTemplateConfig uvm dirKeys fileKeys) =
     map VSMBShare [share. key \<leftarrow> dirKeys, Some (Some share) \<leftarrow> [vsmbDirShares uvm key]] @
     map VSMBShare [share. key \<leftarrow> fileKeys, Some (Some share) \<leftarrow> [vsmbFileShares uvm key]] @
     map SCSIMount [mount. Some mount \<leftarrow> concat (scsiLocations uvm)] \<and>
   set [share. key \<leftarrow> dirKeys, Some (Some share) \<leftarrow> [vsmbDirShares uvm key]] =
     {share. \<exists>key. vsmbDirShares uvm key = Some (Some share)} \<and>
   length [share. key \<leftarrow> dirKeys, Some (Some share) \<leftarrow> [vsmbDirShares uvm key]] =
     card {key. \<exists>share. vsmbDirShares uvm key = Some (Some share)} \<and>
   set [share. key \<leftarrow> fileKeys, Some (Some share) \<leftarrow> [vsmbFileShares uvm key]] =
     {share. \<exists>key. vsmbFileShares uvm key = Some (Some share)} \<and>
   length [share. key \<leftarrow> fileKeys, Some (Some share) \<leftarrow> [vsmbFileShares uvm key]] =
     card {key. \<exists>share. vsmbFileShares uvm key = Some (Some share)} \<and>
   ((\<forall>key. vsmbDirShares uvm key \<noteq> None \<longrightarrow> vsmbDirShares uvm key = Some None) \<and>
    (\<forall>key. vsmbFileShares uvm key \<noteq> None \<longrightarrow> vsmbFileShares uvm key = Some None) \<and>
    (\<forall>slot \<in> set (concat (scsiLocations uvm)). slot = None) \<longrightarrow>
    Resources (GenerateTemplateConfig uvm dirKeys fileKeys) = [])"
proof -
  have r: "Resources (GenerateTemplateConfig uvm dirKeys fileKeys) =
     map VSMBShare [share. key \<leftarrow> dirKeys, Some (Some share) \<leftarrow> [vsmbDirShares uvm key]] @
     map VSMBShare [share. key \<leftarrow> fileKeys, Some (Some share) \<leftarrow> [vsmbFileShares uvm key]] @
     map SCSIMount [mount. Some mount \<leftarrow> concat (scsiLocations uvm)]"
    by (simp add: GenerateTemplateConfig_def Let_def appendShares_eq appendLocations_eq)
  have i: "UVMID (GenerateTemplateConfig uvm dirKeys fileKeys) = uvm_ID uvm"
    by (simp add: GenerateTemplateConfig_def Let_def)
  have e: "(\<forall>key. vsmbDirShares uvm key \<noteq> None \<longrightarrow> vsmbDirShares uvm key = Some None) \<and>
    (\<forall>key. vsmbFileShares uvm key \<noteq> None \<longrightarrow> vsmbFileShares uvm key = Some None) \<and>
    (\<forall>slot \<in> set (concat (scsiLocations uvm)). slot = None) \<longrightarrow>
    Resources (GenerateTemplateConfig uvm dirKeys fileKeys) = []"
    unfolding r
    using no_share[of "vsmbDirShares uvm" dirKeys] no_share[of "vsmbFileShares uvm" fileKeys]
      no_attachment[of "concat (scsiLocations uvm)"]
    by simp
  from r i e rangeOrder_shares[OF dir] rangeOrder_shares[OF fil] show ?thesis
    by (simp only: simp_thms)
qed

theorem GenerateTemplateConfig_shares_then_mounts_witness:
  "rangeOrder [''a'' \<mapsto> Some ''shareA'', ''b'' \<mapsto> None, ''c'' \<mapsto> Some ''shareC''] [''c'', ''a'', ''b''] \<and>
   rangeOrder [''d'' \<mapsto> Some ''shareD''] [''d''] \<and>
   GenerateTemplateConfig
     \<lparr>uvm_ID = ''vm-123'',
      vsmbDirShares = [''a'' \<mapsto> Some ''shareA'', ''b'' \<mapsto> None, ''c'' \<mapsto> Some ''shareC''],
      vsmbFileShares = [''d'' \<mapsto> Some ''shareD''],
      scsiLocations = [[None, Some (1::nat)], [], [Some 2, None, Some 3]]\<rparr>
     [''c'', ''a'', ''b''] [''d''] =
     \<lparr>UVMID = ''vm-123'',
      Resources = [VSMBShare ''shareC'', VSMBShare ''shareA'', VSMBShare ''shareD'',
                   SCSIMount 1, SCSIMount 2, SCSIMount 3]\<rparr> \<and>
   Resources (GenerateTemplateConfig
     \<lparr>uvm_ID = ''vm-123'', vsmbDirShares = [''b'' \<mapsto> None], vsmbFileShares = Map.empty,
      scsiLocations = [[None :: nat option], [None, None]]\<rparr> [''b''] []) =
     ([] :: (string, nat) Cloneable list)"
proof -
  have dir: "rangeOrder (vsmbDirShares
     \<lparr>uvm_ID = ''vm-123'',
      vsmbDirShares = [''a'' \<mapsto> Some ''shareA'', ''b'' \<mapsto> None, ''c'' \<mapsto> Some ''shareC''],
      vsmbFileShares = [''d'' \<mapsto> Some ''shareD''],
      scsiLocations = [[None, Some (1::nat)], [], [Some 2, None, Some 3]]\<rparr>) [''c'', ''a'', ''b'']"
    by (auto simp: rangeOrder_def)
  have fil: "rangeOrder (vsmbFileShares
     \<lparr>uvm_ID = ''vm-123'',
      vsmbDirShares = [''a'' \<mapsto> Some ''shareA'', ''b'' \<mapsto> None, ''c'' \<mapsto> Some ''shareC''],
      vsmbFileShares = [''d'' \<mapsto> Some ''shareD''],
      scsiLocations = [[None, Some (1::nat)], [], [Some 2, None, Some 3]]\<rparr>) [''d'']"
    by (auto simp: rangeOrder_def)
  from GenerateTemplateConfig_shares_then_mounts[OF dir fil] dir fil show ?thesis
    by (simp add: GenerateTemplateConfig_def)
qed

text \<open>
  C8, as stated, fails: the order of the shares is not fixed by the guest. For one guest
  with two directory shares both orders are orders a loop over the map may take, and the
  two calls return the shares in different orders.
\<close>

theorem GenerateTemplateConfig_order_counterexample:
  "rangeOrder [''a'' \<mapsto> Some ''shareA'', ''b'' \<mapsto> Some ''shareB''] [''a'', ''b''] \<and>
   rangeOrder [''a'' \<mapsto> Some ''shareA'', ''b'' \<mapsto> Some ''shareB''] [''b'', ''a''] \<and>
   rangeOrder (Map.empty :: string \<rightharpoonup> string option) [] \<and>
   Resources (GenerateTemplateConfig
     \<lparr>uvm_ID = ''vm-123'',
      vsmbDirShares = [''a'' \<mapsto> Some ''shareA'', ''b'' \<mapsto> Some ''shareB''],
      vsmbFileShares = Map.empty, scsiLocations = [[Some (1::nat)]]\<rparr> [''a'', ''b''] []) =
     [VSMBShare ''shareA'', VSMBShare ''shareB'', SCSIMount 1] \<and>
   Resources (GenerateTemplateConfig
     \<lparr>uvm_ID = ''vm-123'',
      vsmbDirShares = [''a'' \<mapsto> Some ''shareA'', ''b'' \<mapsto> Some ''shareB''],
      vsmbFileShares = Map.empty, scsiLocations = [[Some (1::nat)]]\<rparr> [''b'', ''a''] []) =
     [VSMBShare ''shareB'', VSMBShare ''shareA'', SCSIMount 1] \<and>
   Resources (GenerateTemplateConfig
     \<lparr>uvm_ID = ''vm-123'',
      vsmbDirShares = [''a'' \<mapsto> Some ''shareA'', ''b'' \<mapsto> Some ''shareB''],
      vsmbFileShares = Map.empty, scsiLocations = [[Some (1::nat)]]\<rparr> [''a'', ''b''] []) \<noteq>
   Resources (GenerateTemplateConfig
     \<lparr>uvm_ID = ''vm-123'',
      vsmbDirShares = [''a'' \<mapsto> Some ''shareA'', ''b'' \<mapsto> Some ''shareB''],
      vsmbFileShares = Map.empty, scsiLocations = [[Some (1::nat)]]\<rparr> [''b'', ''a''] [])"
  by (auto simp: rangeOrder_def GenerateTemplateConfig_def)

section \<open>Saving a guest as a template\<close>

text \<open>
  What \<^verbatim>\<open>SaveAsTemplate\<close> returns, from what the compute system answers to the pause and
  to the save.
\<close>

lemma SaveAsTemplate_Pause_fails:
  "hcsSystem_Pause h w = (Some e, w1) \<Longrightarrow>
   SaveAsTemplate h w = (Some (Wrap e ''error pausing the VM''), [StepPause (Some e)], w1)"
  by (simp add: SaveAsTemplate_def)

lemma SaveAsTemplate_Save:
  "hcsSystem_Pause h w = (None, w1) \<Longrightarrow> hcsSystem_Save h hcsSaveOptions w1 = (r, w2) \<Longrightarrow>
   SaveAsTemplate h w =
     ((case r of None \<Rightarrow> None | Some e \<Rightarrow> Some (Wrap e ''error saving the VM'')),
      [StepPause None, StepSave hcsSaveOptions r], w2)"
  by (simp add: SaveAsTemplate_def split: option.splits)

text \<open>
  What \<^verbatim>\<open>saveAsTemplate\<close> returns, from what its collaborators answer: a step that
  returns an error ends the run with that error (wrapped by \<^verbatim>\<open>SaveAsTemplate\<close> for the
  pause and the save), with the steps before it taken in order, no step after it, and
  the world as that step left it; when all five succeed nil is returned.
\<close>

lemma saveAsTemplate_RemoveAllNICs_fails:
  "RemoveAllNICs h w = (Some e, w1) \<Longrightarrow>
   saveAsTemplate h rs g dirKeys fileKeys w = (Return (Some e), [StepRemoveAllNICs (Some e)], w1)"
  by (simp add: saveAsTemplate_def)

lemma saveAsTemplate_CloseGCSConnection_fails:
  "RemoveAllNICs h w = (None, w1) \<Longrightarrow> CloseGCSConnection h w1 = (Some e, w2) \<Longrightarrow>
   saveAsTemplate h rs g dirKeys fileKeys w =
     (Return (Some e), [StepRemoveAllNICs None, StepCloseGCSConnection (Some e)], w2)"
  by (simp add: saveAsTemplate_def)

lemma saveAsTemplate_SaveTemplateConfig_fails:
  "RemoveAllNICs h w = (None, w1) \<Longrightarrow> CloseGCSConnection h w1 = (None, w2) \<Longrightarrow>
   SaveTemplateConfig rs g (GenerateTemplateConfig (uvm_struct h w2) dirKeys fileKeys) w2 = (out, w3) \<Longrightarrow>
   out \<noteq> Return None \<Longrightarrow>
   saveAsTemplate h rs g dirKeys fileKeys w =
     (out,
      [StepRemoveAllNICs None, StepCloseGCSConnection None,
       StepSaveTemplateConfig (GenerateTemplateConfig (uvm_struct h w2) dirKeys fileKeys) out], w3)"
  by (cases out) (auto simp: saveAsTemplate_def Let_def)

lemma saveAsTemplate_Pause_fails:
  "RemoveAllNICs h w = (None, w1) \<Longrightarrow> CloseGCSConnection h w1 = (None, w2) \<Longrightarrow>
   SaveTemplateConfig rs g (GenerateTemplateConfig (uvm_struct h w2) dirKeys fileKeys) w2 =
     (Return None, w3) \<Longrightarrow>
   hcsSystem_Pause h w3 = (Some e, w4) \<Longrightarrow>
   saveAsTemplate h rs g dirKeys fileKeys w =
     (Return (Some (Wrap e ''error pausing the VM'')),
      [StepRemoveAllNICs None, StepCloseGCSConnection None,
       StepSaveTemplateConfig (GenerateTemplateConfig (uvm_struct h w2) dirKeys fileKeys) (Return None),
       StepPause (Some e)], w4)"
  by (simp add: saveAsTemplate_def Let_def SaveAsTemplate_Pause_fails)

lemma saveAsTemplate_Save_fails:
  "RemoveAllNICs h w = (None, w1) \<Longrightarrow> CloseGCSConnection h w1 = (None, w2) \<Longrightarrow>
   SaveTemplateConfig rs g (GenerateTemplateConfig (uvm_struct h w2) dirKeys fileKeys) w2 =
     (Return None, w3) \<Longrightarrow>
   hcsSystem_Pause h w3 = (None, w4) \<Longrightarrow>
   hcsSystem_Save h hcsSaveOptions w4 = (Some e, w5) \<Longrightarrow>
   saveAsTemplate h rs g dirKeys fileKeys w =
     (Return (Some (Wrap e ''error saving the VM'')),
      [StepRemoveAllNICs None, StepCloseGCSConnection None,
       StepSaveTemplateConfig (GenerateTemplateConfig (uvm_struct h w2) dirKeys fileKeys) (Return None),
       StepPause None, StepSave hcsSaveOptions (Some e)], w5)"
  by (simp add: saveAsTemplate_def Let_def SaveAsTemplate_Save)

lemma saveAsTemplate_succeeds:
  "RemoveAllNICs h w = (None, w1) \<Longrightarrow> CloseGCSConnection h w1 = (None, w2) \<Longrightarrow>
   SaveTemplateConfig rs g (GenerateTemplateConfig (uvm_struct h w2) dirKeys fileKeys) w2 =
     (Return None, w3) \<Longrightarrow>
   hcsSystem_Pause h w3 = (None, w4) \<Longrightarrow>
   hcsSystem_Save h hcsSaveOptions w4 = (None, w5) \<Longrightarrow>
   saveAsTemplate h rs g dirKeys fileKeys w =
     (Return None,
      [StepRemoveAllNICs None, StepCloseGCSConnection None,
       StepSaveTemplateConfig (GenerateTemplateConfig (uvm_struct h w2) dirKeys fileKeys) (Return None),
       StepPause None, StepSave hcsSaveOptions None], w5)"
  by (simp add: saveAsTemplate_def Let_def SaveAsTemplate_Save)

lemma saveAsTemplate_runs:
  "saveAsTemplate
     (scripted_host None None (Some (ExternalError ''pause failed'')) None
        \<lparr>uvm_ID = ''vm-123'', vsmbDirShares = [''a'' \<mapsto> Some ''shareA''],
         vsmbFileShares = Map.empty, scsiLocations = [[Some ''mountB'']]\<rparr>)
     kvstore (constant_gob ''blob'') [''a''] [] Map.empty =
   (Return (Some (Wrap (ExternalError ''pause failed'') ''error pausing the VM'')),
    [StepRemoveAllNICs None, StepCloseGCSConnection None,
     StepSaveTemplateConfig
       \<lparr>UVMID = ''vm-123'', Resources = [VSMBShare ''shareA'', SCSIMount ''mountB'']\<rparr>
       (Return None),
     StepPause (Some (ExternalError ''pause failed''))],
    [''vm-123'' \<mapsto> [configKey \<mapsto> \<lparr>RawData = ''blob'', Stored = False\<rparr>]]) \<and>
   saveAsTemplate
     (scripted_host None None None None
        \<lparr>uvm_ID = ''vm-123'', vsmbDirShares = [''a'' \<mapsto> Some ''shareA''],
         vsmbFileShares = Map.empty, scsiLocations = [[Some ''mountB'']]\<rparr>)
     kvstore (constant_gob ''blob'') [''a''] [] Map.empty =
   (Return None,
    [StepRemoveAllNICs None, StepCloseGCSConnection None,
     StepSaveTemplateConfig
       \<lparr>UVMID = ''vm-123'', Resources = [VSMBShare ''shareA'', SCSIMount ''mountB'']\<rparr>
       (Return None),
     StepPause None, StepSave hcsSaveOptions None],
    [''vm-123'' \<mapsto> [configKey \<mapsto> \<lparr>RawData = ''blob'', Stored = False\<rparr>]])"
  by (simp add: saveAsTemplate_def SaveAsTemplate_def scripted_host_def GenerateTemplateConfig_def
      SaveTemplateConfig_def loadPersistedUVMConfig_def storePersistedUVMConfig_def
      encodeTemplateConfig_def kvstore_def constant_gob_def)

text \<open>
  C9. The third step can fail without an error being returned: for a guest whose id
  already has a persisted record, \<^verbatim>\<open>SaveTemplateConfig\<close> panics (the nil dereference of
  C1), and \<^verbatim>\<open>saveAsTemplate\<close> ends in that panic after its first two steps.
\<close>

theorem saveAsTemplate_existing_record_panics:
  "saveAsTemplate
     (scripted_host None None None None
        \<lparr>uvm_ID = ''vm-123'', vsmbDirShares = [''a'' \<mapsto> Some ''shareA''],
         vsmbFileShares = Map.empty, scsiLocations = [[Some ''mountB'']]\<rparr>)
     kvstore (constant_gob ''blob'') [''a''] []
     [''vm-123'' \<mapsto> [configKey \<mapsto> \<lparr>RawData = ''blob'', Stored = False\<rparr>]] =
   (Panic nil_dereference,
    [StepRemoveAllNICs None, StepCloseGCSConnection None,
     StepSaveTemplateConfig
       \<lparr>UVMID = ''vm-123'', Resources = [VSMBShare ''shareA'', SCSIMount ''mountB'']\<rparr>
       (Panic nil_dereference)],
    [''vm-123'' \<mapsto> [configKey \<mapsto> \<lparr>RawData = ''blob'', Stored = False\<rparr>]])"
  by (simp add: saveAsTemplate_def scripted_host_def GenerateTemplateConfig_def
      SaveTemplateConfig_def loadPersistedUVMConfig_def kvstore_def)


section \<open>Network namespace setup\<close>


lemma not_among_lookups:
  "\<forall>c \<in> set lookups. isEndpointLookup c \<Longrightarrow> \<not> isEndpointLookup c \<Longrightarrow> c \<notin> set lookups"
  by blast

lemma endpointsByID_calls:
  "endpointsByID net ids acc w = (res, calls, w') \<Longrightarrow>
   (\<forall>c \<in> set calls. isEndpointLookup c) \<and>
   (\<forall>endpoints. res = Inr endpoints \<longrightarrow> endpoints = acc @ fetchedEndpoints calls)"
proof (induction ids arbitrary: acc w res calls w')
  case Nil
  then show ?case by auto
next
  case (Cons ident ids)
  show ?case
  proof (cases "hns_GetHNSEndpointByID net ident w")
    case (Pair r w1)
    show ?thesis
    proof (cases r)
      case (Inl err)
      with Pair Cons.prems show ?thesis by auto
    next
      case (Inr endpoint)
      obtain res2 calls2 w2 where
        rec: "endpointsByID net ids (acc @ [endpoint]) w1 = (res2, calls2, w2)"
        by (cases "endpointsByID net ids (acc @ [endpoint]) w1") auto
      from Cons.IH[OF rec] Pair Inr rec Cons.prems show ?thesis by auto
    qed
  qed
qed

lemma GetNamespaceEndpoints_calls:
  assumes "GetNamespaceEndpoints net nsid w = (res, calls, w')"
  obtains r lookups where
    "calls = CallGetNamespaceEndpoints nsid r # lookups"
    "\<forall>c \<in> set lookups. isEndpointLookup c"
    "\<And>endpoints. res = Inr endpoints \<Longrightarrow> endpoints = fetchedEndpoints lookups"
proof (cases "hns_GetNamespaceEndpoints net nsid w")
  case (Pair r w1)
  show ?thesis
  proof (cases r)
    case (Inl err)
    with Pair assms that[of "Inl err" "[]"] show ?thesis
      by (auto simp: GetNamespaceEndpoints_def)
  next
    case (Inr ids)
    obtain res2 calls2 w2 where rec: "endpointsByID net ids [] w1 = (res2, calls2, w2)"
      by (cases "endpointsByID net ids [] w1") auto
    from endpointsByID_calls[OF rec] Pair Inr rec assms that[of "Inr ids" calls2] show ?thesis
      by (auto simp: GetNamespaceEndpoints_def)
  qed
qed

lemma addNamespace_calls:
  assumes "addNamespace net nsid inside isTemplate w = (err, calls, w')"
  obtains (lookup_failed) e where
      "calls = [CallGetNamespaceByID nsid (Inl e)]" "err = Some e"
  | (added) fetched where
      "calls = [CallGetNamespaceByID nsid (Inr fetched),
                CallAddNetNSRaw
                  (if isTemplate then fetched\<lparr>HostComputeNamespace_Id := inside\<rparr> else fetched) err]"
  using assms by (auto simp: addNamespace_def Let_def split: prod.splits sum.splits)

lemma addEndpoints_calls:
  assumes "addEndpoints net inside endpoints w = (err, calls, w')"
  obtains (added) "err = None" "calls = [CallAddEndpointsToNS inside endpoints None]"
  | (removed) e r where "err = Some e"
      "calls = CallAddEndpointsToNS inside endpoints (Some e) # CallRemoveNetNS inside r #
               (case r of None \<Rightarrow> [] | Some removeErr \<Rightarrow> [LogWarn removeErr])"
  using assms by (auto simp: addEndpoints_def split: prod.splits option.splits)

lemma SetupNetworkNamespace_runs:
  assumes run: "SetupNetworkNamespace net nsid isTemplate isClone w = (err, calls, w')"
  obtains
    (endpoints_unknown) r lookups e where
      "calls = CallGetNamespaceEndpoints nsid r # lookups"
      "\<forall>c \<in> set lookups. isEndpointLookup c" "err = Some e"
  | (namespace_unknown) r lookups e where
      "calls = CallGetNamespaceEndpoints nsid r # lookups @ [CallGetNamespaceByID nsid (Inl e)]"
      "\<forall>c \<in> set lookups. isEndpointLookup c" "err = Some e" "\<not> isClone"
  | (namespace_refused) r lookups fetched e where
      "calls = CallGetNamespaceEndpoints nsid r # lookups @
         [CallGetNamespaceByID nsid (Inr fetched),
          CallAddNetNSRaw
            (if isTemplate
             then fetched\<lparr>HostComputeNamespace_Id := nsidInsideUVM net nsid isTemplate isClone\<rparr>
             else fetched) (Some e)]"
      "\<forall>c \<in> set lookups. isEndpointLookup c" "err = Some e" "\<not> isClone"
  | (clone) r lookups removal where
      "calls = CallGetNamespaceEndpoints nsid r # lookups @
         CallAddEndpointsToNS (nsidInsideUVM net nsid isTemplate isClone)
           (replaceNamespace (nsidInsideUVM net nsid isTemplate isClone) isTemplate isClone
              (fetchedEndpoints lookups)) err # removal"
      "\<forall>c \<in> set lookups. isEndpointLookup c" "isClone"
      "err = None \<and> removal = [] \<or>
       (\<exists>r. err \<noteq> None \<and>
          removal = CallRemoveNetNS (nsidInsideUVM net nsid isTemplate isClone) r #
                    (case r of None \<Rightarrow> [] | Some removeErr \<Rightarrow> [LogWarn removeErr]))"
  | (not_clone) r lookups fetched removal where
      "calls = CallGetNamespaceEndpoints nsid r # lookups @
         [CallGetNamespaceByID nsid (Inr fetched),
          CallAddNetNSRaw
            (if isTemplate
             then fetched\<lparr>HostComputeNamespace_Id := nsidInsideUVM net nsid isTemplate isClone\<rparr>
             else fetched) None] @
         CallAddEndpointsToNS (nsidInsideUVM net nsid isTemplate isClone)
           (replaceNamespace (nsidInsideUVM net nsid isTemplate isClone) isTemplate isClone
              (fetchedEndpoints lookups)) err # removal"
      "\<forall>c \<in> set lookups. isEndpointLookup c" "\<not> isClone"
      "err = None \<and> removal = [] \<or>
       (\<exists>r. err \<noteq> None \<and>
          removal = CallRemoveNetNS (nsidInsideUVM net nsid isTemplate isClone) r #
                    (case r of None \<Rightarrow> [] | Some removeErr \<Rightarrow> [LogWarn removeErr]))"
proof -
  let ?inside = "nsidInsideUVM net nsid isTemplate isClone"
  obtain res1 calls1 w1 where g: "GetNamespaceEndpoints net nsid w = (res1, calls1, w1)"
    by (cases "GetNamespaceEndpoints net nsid w") auto
  from GetNamespaceEndpoints_calls[OF g] obtain r lookups where
    c1: "calls1 = CallGetNamespaceEndpoints nsid r # lookups"
    and lk: "\<forall>c \<in> set lookups. isEndpointLookup c"
    and eps: "\<And>endpoints. res1 = Inr endpoints \<Longrightarrow> endpoints = fetchedEndpoints lookups"
    by blast
  show thesis
  proof (cases res1)
    case (Inl e)
    with run g have "err = Some e" "calls = calls1"
      by (auto simp: SetupNetworkNamespace_def Let_def)
    with c1 lk endpoints_unknown show ?thesis by simp
  next
    case (Inr endpoints)
    with eps have fe: "endpoints = fetchedEndpoints lookups" by simp
    obtain err2 calls2 w2 where
      n: "(if \<not> isClone then addNamespace net nsid ?inside isTemplate w1 else (None, [], w1)) =
            (err2, calls2, w2)"
      by (cases "if \<not> isClone then addNamespace net nsid ?inside isTemplate w1 else (None, [], w1)")
        auto
    show ?thesis
    proof (cases err2)
      case (Some e)
      with run g Inr n have r: "err = Some e" "calls = calls1 @ calls2"
        by (auto simp: SetupNetworkNamespace_def Let_def)
      from n Some have nc: "\<not> isClone" by (cases isClone) auto
      with n have "addNamespace net nsid ?inside isTemplate w1 = (err2, calls2, w2)" by simp
      then show ?thesis
      proof (cases rule: addNamespace_calls)
        case (lookup_failed e')
        with Some r c1 lk nc namespace_unknown[of r lookups e] show ?thesis by simp
      next
        case (added fetched)
        with Some r c1 lk nc namespace_refused[of r lookups fetched e] show ?thesis by simp
      qed
    next
      case None
      obtain err3 calls3 w3 where
        a: "addEndpoints net ?inside (replaceNamespace ?inside isTemplate isClone endpoints) w2 =
              (err3, calls3, w3)"
        by (cases "addEndpoints net ?inside (replaceNamespace ?inside isTemplate isClone endpoints) w2")
          auto
      with run g Inr n None have r: "err = err3" "calls = calls1 @ calls2 @ calls3"
        by (auto simp: SetupNetworkNamespace_def Let_def)
      from a obtain removal where
        c3: "calls3 = CallAddEndpointsToNS ?inside
               (replaceNamespace ?inside isTemplate isClone (fetchedEndpoints lookups)) err # removal"
        and rm: "err = None \<and> removal = [] \<or>
          (\<exists>r. err \<noteq> None \<and>
             removal = CallRemoveNetNS ?inside r #
                       (case r of None \<Rightarrow> [] | Some removeErr \<Rightarrow> [LogWarn removeErr]))"
        unfolding fe using r(1) by (cases rule: addEndpoints_calls) auto
      show ?thesis
      proof (cases isClone)
        case True
        with n have "calls2 = []" by simp
        with r c1 c3 lk rm True clone[of r lookups removal] show ?thesis by simp
      next
        case False
        with n have "addNamespace net nsid ?inside isTemplate w1 = (err2, calls2, w2)" by simp
        then show ?thesis
        proof (cases rule: addNamespace_calls)
          case (lookup_failed e')
          with None show ?thesis by simp
        next
          case (added fetched)
          with None r c1 c3 lk rm False not_clone[of r lookups fetched removal] show ?thesis
            by simp
        qed
      qed
    qed
  qed
qed



text \<open>
  C5. Whenever \<^verbatim>\<open>SetupNetworkNamespace\<close> reaches the hot-add of the endpoints (the
  endpoints were fetched and, unless the guest is a clone, the namespace was fetched and
  hot-added) and the guest answers the hot-add with an error, the namespace of the
  guest-visible identifier is removed from the guest in the world the hot-add left, and
  the call returns the error of the hot-add in the world the removal left, whatever the
  removal answers; a failure of the removal is only logged.
\<close>

theorem SetupNetworkNamespace_cleanup:
  assumes lookups: "GetNamespaceEndpoints net nsid w = (Inr endpoints, calls1, w1)"
    and namespace:
      "isClone \<and> calls2 = [] \<and> w2 = w1 \<or>
       \<not> isClone \<and>
       (\<exists>fetched w1'.
          hcn_GetNamespaceByID net nsid w1 = (Inr fetched, w1') \<and>
          AddNetNSRaw net
            (if isTemplate
             then fetched\<lparr>HostComputeNamespace_Id := nsidInsideUVM net nsid isTemplate isClone\<rparr>
             else fetched) w1' = (None, w2) \<and>
          calls2 =
            [CallGetNamespaceByID nsid (Inr fetched),
             CallAddNetNSRaw
               (if isTemplate
                then fetched\<lparr>HostComputeNamespace_Id := nsidInsideUVM net nsid isTemplate isClone\<rparr>
                else fetched) None])"
    and hot_add: "AddEndpointsToNS net (nsidInsideUVM net nsid isTemplate isClone)
         (replaceNamespace (nsidInsideUVM net nsid isTemplate isClone) isTemplate isClone endpoints)
         w2 = (Some e, w3)"
    and removal: "RemoveNetNS net (nsidInsideUVM net nsid isTemplate isClone) w3 = (r, w4)"
  shows "SetupNetworkNamespace net nsid isTemplate isClone w =
     (Some e,
      calls1 @ calls2 @
      [CallAddEndpointsToNS (nsidInsideUVM net nsid isTemplate isClone)
         (replaceNamespace (nsidInsideUVM net nsid isTemplate isClone) isTemplate isClone endpoints)
         (Some e),
       CallRemoveNetNS (nsidInsideUVM net nsid isTemplate isClone) r] @
      (case r of None \<Rightarrow> [] | Some removeErr \<Rightarrow> [LogWarn removeErr]),
      w4)"
proof -
  let ?inside = "nsidInsideUVM net nsid isTemplate isClone"
  have ns: "(if \<not> isClone then addNamespace net nsid ?inside isTemplate w1 else (None, [], w1)) =
      (None, calls2, w2)"
    using namespace by (auto simp: addNamespace_def Let_def)
  have ep: "addEndpoints net ?inside (replaceNamespace ?inside isTemplate isClone endpoints) w2 =
      (Some e,
       [CallAddEndpointsToNS ?inside (replaceNamespace ?inside isTemplate isClone endpoints) (Some e),
        CallRemoveNetNS ?inside r] @
       (case r of None \<Rightarrow> [] | Some removeErr \<Rightarrow> [LogWarn removeErr]), w4)"
    using hot_add removal by (cases r) (simp_all add: addEndpoints_def)
  show ?thesis
    by (simp only: SetupNetworkNamespace_def Let_def lookups ns ep prod.case sum.case option.case)
qed

theorem SetupNetworkNamespace_cleanup_witness:
  "SetupNetworkNamespace
     (scripted_network ''reserved'' [''ep1'']
        None (Some (ExternalError ''hot-add failed'')) (Some (ExternalError ''remove failed'')))
     ''nsid-1'' True False () =
   (Some (ExternalError ''hot-add failed''),
    [CallGetNamespaceEndpoints ''nsid-1'' (Inr [''ep1'']),
     CallGetHNSEndpointByID ''ep1''
       (Inr \<lparr>HNSEndpoint_Namespace = None, HNSEndpoint_rest = ''ep1''\<rparr>),
     CallGetNamespaceByID ''nsid-1''
       (Inr \<lparr>HostComputeNamespace_Id = ''nsid-1'', HostComputeNamespace_rest = ()\<rparr>),
     CallAddNetNSRaw
       \<lparr>HostComputeNamespace_Id = ''reserved'', HostComputeNamespace_rest = ()\<rparr> None,
     CallAddEndpointsToNS ''reserved''
       [\<lparr>HNSEndpoint_Namespace = Some \<lparr>Namespace_ID = ''reserved''\<rparr>, HNSEndpoint_rest = ''ep1''\<rparr>]
       (Some (ExternalError ''hot-add failed'')),
     CallRemoveNetNS ''reserved'' (Some (ExternalError ''remove failed'')),
     LogWarn (ExternalError ''remove failed'')],
    ()) \<and>
   SetupNetworkNamespace
     (refusing_guest ''reserved'' [''ep1''] (ExternalError ''hot-add failed''))
     ''nsid-1'' True False [] =
   (Some (ExternalError ''hot-add failed''),
    [CallGetNamespaceEndpoints ''nsid-1'' (Inr [''ep1'']),
     CallGetHNSEndpointByID ''ep1''
       (Inr \<lparr>HNSEndpoint_Namespace = None, HNSEndpoint_rest = ''ep1''\<rparr>),
     CallGetNamespaceByID ''nsid-1''
       (Inr \<lparr>HostComputeNamespace_Id = ''nsid-1'', HostComputeNamespace_rest = ()\<rparr>),
     CallAddNetNSRaw
       \<lparr>HostComputeNamespace_Id = ''reserved'', HostComputeNamespace_rest = ()\<rparr> None,
     CallAddEndpointsToNS ''reserved''
       [\<lparr>HNSEndpoint_Namespace = Some \<lparr>Namespace_ID = ''reserved''\<rparr>, HNSEndpoint_rest = ''ep1''\<rparr>]
       (Some (ExternalError ''hot-add failed'')),
     CallRemoveNetNS ''reserved'' None],
    []) \<and>
   SetupNetworkNamespace
     (refusing_guest ''reserved'' [''ep1''] (ExternalError ''hot-add failed''))
     ''nsid-1'' False True [''reserved''] =
   (Some (ExternalError ''hot-add failed''),
    [CallGetNamespaceEndpoints ''nsid-1'' (Inr [''ep1'']),
     CallGetHNSEndpointByID ''ep1''
       (Inr \<lparr>HNSEndpoint_Namespace = None, HNSEndpoint_rest = ''ep1''\<rparr>),
     CallAddEndpointsToNS ''reserved''
       [\<lparr>HNSEndpoint_Namespace = Some \<lparr>Namespace_ID = ''reserved''\<rparr>, HNSEndpoint_rest = ''ep1''\<rparr>]
       (Some (ExternalError ''hot-add failed'')),
     CallRemoveNetNS ''reserved'' None],
    [])"
proof -
  let ?net = "scripted_network ''reserved'' [''ep1'']
        None (Some (ExternalError ''hot-add failed'')) (Some (ExternalError ''remove failed''))
        :: (unit, unit, string) network"
  let ?fetched = "\<lparr>HostComputeNamespace_Id = ''nsid-1'', HostComputeNamespace_rest = ()\<rparr>"
  let ?endpoints = "[\<lparr>HNSEndpoint_Namespace = None, HNSEndpoint_rest = ''ep1''\<rparr>]"
  have inside: "nsidInsideUVM ?net ''nsid-1'' True False = ''reserved''"
    by (simp add: nsidInsideUVM_def scripted_network_def)
  have lookups: "GetNamespaceEndpoints ?net ''nsid-1'' () =
      (Inr ?endpoints,
       [CallGetNamespaceEndpoints ''nsid-1'' (Inr [''ep1'']),
        CallGetHNSEndpointByID ''ep1''
          (Inr \<lparr>HNSEndpoint_Namespace = None, HNSEndpoint_rest = ''ep1''\<rparr>)], ())"
    by (simp add: GetNamespaceEndpoints_def scripted_network_def)
  have namespace:
    "False \<and> [CallGetNamespaceByID ''nsid-1'' (Inr ?fetched),
        CallAddNetNSRaw
          (if True then ?fetched\<lparr>HostComputeNamespace_Id := nsidInsideUVM ?net ''nsid-1'' True False\<rparr>
           else ?fetched) None] = [] \<and> () = () \<or>
     \<not> False \<and>
     (\<exists>fetched w1'.
        hcn_GetNamespaceByID ?net ''nsid-1'' () = (Inr fetched, w1') \<and>
        AddNetNSRaw ?net
          (if True then fetched\<lparr>HostComputeNamespace_Id := nsidInsideUVM ?net ''nsid-1'' True False\<rparr>
           else fetched) w1' = (None, ()) \<and>
        [CallGetNamespaceByID ''nsid-1'' (Inr ?fetched),
         CallAddNetNSRaw
          (if True then ?fetched\<lparr>HostComputeNamespace_Id := nsidInsideUVM ?net ''nsid-1'' True False\<rparr>
           else ?fetched) None] =
          [CallGetNamespaceByID ''nsid-1'' (Inr fetched),
           CallAddNetNSRaw
             (if True then fetched\<lparr>HostComputeNamespace_Id := nsidInsideUVM ?net ''nsid-1'' True False\<rparr>
              else fetched) None])"
    by (simp add: scripted_network_def)
  have hot_add: "AddEndpointsToNS ?net (nsidInsideUVM ?net ''nsid-1'' True False)
      (replaceNamespace (nsidInsideUVM ?net ''nsid-1'' True False) True False ?endpoints) () =
      (Some (ExternalError ''hot-add failed''), ())"
    by (simp add: scripted_network_def)
  have removal: "RemoveNetNS ?net (nsidInsideUVM ?net ''nsid-1'' True False) () =
      (Some (ExternalError ''remove failed''), ())"
    by (simp add: scripted_network_def)
  from SetupNetworkNamespace_cleanup[OF lookups namespace hot_add removal]
  have scripted: "SetupNetworkNamespace ?net ''nsid-1'' True False () =
     (Some (ExternalError ''hot-add failed''),
      [CallGetNamespaceEndpoints ''nsid-1'' (Inr [''ep1'']),
       CallGetHNSEndpointByID ''ep1''
         (Inr \<lparr>HNSEndpoint_Namespace = None, HNSEndpoint_rest = ''ep1''\<rparr>),
       CallGetNamespaceByID ''nsid-1''
         (Inr \<lparr>HostComputeNamespace_Id = ''nsid-1'', HostComputeNamespace_rest = ()\<rparr>),
       CallAddNetNSRaw
         \<lparr>HostComputeNamespace_Id = ''reserved'', HostComputeNamespace_rest = ()\<rparr> None,
       CallAddEndpointsToNS ''reserved''
         [\<lparr>HNSEndpoint_Namespace = Some \<lparr>Namespace_ID = ''reserved''\<rparr>, HNSEndpoint_rest = ''ep1''\<rparr>]
         (Some (ExternalError ''hot-add failed'')),
       CallRemoveNetNS ''reserved'' (Some (ExternalError ''remove failed'')),
       LogWarn (ExternalError ''remove failed'')],
      ())"
    by (simp add: inside replaceNamespace_def)
  show ?thesis
    unfolding scripted
    by (simp add: replaceNamespace_def SetupNetworkNamespace_def nsidInsideUVM_def
        GetNamespaceEndpoints_def addNamespace_def addEndpoints_def refusing_guest_def Let_def)
qed

text \<open>
  The same read off the calls of any run: a hot-add recorded with an error is followed by
  the removal at the same identifier, and its error is the one returned.
\<close>

lemma SetupNetworkNamespace_failed_hot_add_recorded:
  assumes run: "SetupNetworkNamespace net nsid isTemplate isClone w = (err, calls, w')"
    and failed: "CallAddEndpointsToNS i endpoints (Some e) \<in> set calls"
  shows "err = Some e \<and>
         i = (if isTemplate \<or> isClone then CLONING_DEFAULT_NETWORK_NAMESPACE_ID net else nsid) \<and>
         (\<exists>before r. calls =
            before @ [CallAddEndpointsToNS i endpoints (Some e), CallRemoveNetNS i r] @
            (case r of None \<Rightarrow> [] | Some removeErr \<Rightarrow> [LogWarn removeErr]))"
  using run
proof (cases rule: SetupNetworkNamespace_runs)
  case (endpoints_unknown r lookups e')
  with failed show ?thesis
    by (simp add: not_among_lookups[OF endpoints_unknown(2)])
next
  case (namespace_unknown r lookups e')
  with failed show ?thesis
    by (simp add: not_among_lookups[OF namespace_unknown(2)])
next
  case (namespace_refused r lookups fetched e')
  with failed show ?thesis
    by (simp add: not_among_lookups[OF namespace_refused(2)])
next
  case (clone r lookups removal)
  note nl = not_among_lookups[OF clone(2)]
  from clone(4) failed[unfolded clone(1)]
  obtain r' where e: "err = Some e" "i = nsidInsideUVM net nsid isTemplate isClone"
    "endpoints = replaceNamespace (nsidInsideUVM net nsid isTemplate isClone) isTemplate isClone
       (fetchedEndpoints lookups)"
    "removal = CallRemoveNetNS (nsidInsideUVM net nsid isTemplate isClone) r' #
               (case r' of None \<Rightarrow> [] | Some removeErr \<Rightarrow> [LogWarn removeErr])"
    by (auto simp: nl split: option.splits)
  have "calls = (CallGetNamespaceEndpoints nsid r # lookups) @
      [CallAddEndpointsToNS i endpoints (Some e), CallRemoveNetNS i r'] @
      (case r' of None \<Rightarrow> [] | Some removeErr \<Rightarrow> [LogWarn removeErr])"
    unfolding clone(1) e by simp
  with e(1,2) show ?thesis
    unfolding nsidInsideUVM_def by blast
next
  case (not_clone r lookups fetched removal)
  note nl = not_among_lookups[OF not_clone(2)]
  from not_clone(4) failed[unfolded not_clone(1)]
  obtain r' where e: "err = Some e" "i = nsidInsideUVM net nsid isTemplate isClone"
    "endpoints = replaceNamespace (nsidInsideUVM net nsid isTemplate isClone) isTemplate isClone
       (fetchedEndpoints lookups)"
    "removal = CallRemoveNetNS (nsidInsideUVM net nsid isTemplate isClone) r' #
               (case r' of None \<Rightarrow> [] | Some removeErr \<Rightarrow> [LogWarn removeErr])"
    by (auto simp: nl split: option.splits)
  have "calls = (CallGetNamespaceEndpoints nsid r # lookups @
         [CallGetNamespaceByID nsid (Inr fetched),
          CallAddNetNSRaw
            (if isTemplate
             then fetched\<lparr>HostComputeNamespace_Id := nsidInsideUVM net nsid isTemplate isClone\<rparr>
             else fetched) None]) @
      [CallAddEndpointsToNS i endpoints (Some e), CallRemoveNetNS i r'] @
      (case r' of None \<Rightarrow> [] | Some removeErr \<Rightarrow> [LogWarn removeErr])"
    unfolding not_clone(1) e by simp
  with e(1,2) show ?thesis
    unfolding nsidInsideUVM_def by blast
qed


text \<open>
  C10. With both flags set \<^verbatim>\<open>SetupNetworkNamespace\<close> does exactly what it does for a
  clone: same result, same calls, same world.
\<close>

theorem SetupNetworkNamespace_template_and_clone:
  "SetupNetworkNamespace net nsid True True w = SetupNetworkNamespace net nsid False True w"
  by (simp add: SetupNetworkNamespace_def nsidInsideUVM_def replaceNamespace_def Let_def
      cong: prod.case_cong sum.case_cong option.case_cong)

theorem SetupNetworkNamespace_template_and_clone_witness:
  "SetupNetworkNamespace
     (scripted_network ''reserved'' [''ep1'', ''ep2''] None None None) ''nsid-1'' True True () =
   (None,
    [CallGetNamespaceEndpoints ''nsid-1'' (Inr [''ep1'', ''ep2'']),
     CallGetHNSEndpointByID ''ep1''
       (Inr \<lparr>HNSEndpoint_Namespace = None, HNSEndpoint_rest = ''ep1''\<rparr>),
     CallGetHNSEndpointByID ''ep2''
       (Inr \<lparr>HNSEndpoint_Namespace = None, HNSEndpoint_rest = ''ep2''\<rparr>),
     CallAddEndpointsToNS ''reserved''
       [\<lparr>HNSEndpoint_Namespace = Some \<lparr>Namespace_ID = ''reserved''\<rparr>, HNSEndpoint_rest = ''ep1''\<rparr>,
        \<lparr>HNSEndpoint_Namespace = Some \<lparr>Namespace_ID = ''reserved''\<rparr>, HNSEndpoint_rest = ''ep2''\<rparr>]
       None],
    ()) \<and>
   SetupNetworkNamespace
     (scripted_network ''reserved'' [''ep1'', ''ep2''] None None None) ''nsid-1'' False True () =
   SetupNetworkNamespace
     (scripted_network ''reserved'' [''ep1'', ''ep2''] None None None) ''nsid-1'' True True ()"
  using SetupNetworkNamespace_template_and_clone
    [of "scripted_network ''reserved'' [''ep1'', ''ep2''] None None None" "''nsid-1''" "()"]
  by (simp add: SetupNetworkNamespace_def nsidInsideUVM_def replaceNamespace_def Let_def
      GetNamespaceEndpoints_def addEndpoints_def scripted_network_def)

end
